theory Spec2Isabelle
  imports Main "HOL-Library.Sublist"
begin

section \<open>Python values\<close>

text \<open>
  Python strings are modelled as HOL strings, one \<open>char\<close> for each character of the
  Python \<open>str\<close> (so \<open>length\<close> is Python's \<open>len\<close>); the characters are those with a
  code point below 256. A dictionary with a fixed set of keys is a record; a key that
  the code reads with \<open>d.get(key, default)\<close>, or tests with \<open>key in d\<close>, is a field
  of option type, \<open>None\<close> when the key is absent. The values have the types of the
  schema in learning\_path.py (\<open>Module\<close>, \<open>YouTubeRecommendation\<close>, \<open>QuizQuestion\<close>).
\<close>

datatype py_error =
    KeyError | IndexError | AttributeError | JSONDecodeError
  | RequestException | ValueError | TimeoutError | OtherException

text \<open>\<open>d[key]\<close> on a key that may be absent.\<close>

definition getitem :: "'a option \<Rightarrow> py_error + 'a" where
  "getitem v = (case v of None \<Rightarrow> Inl KeyError | Some x \<Rightarrow> Inr x)"

text \<open>\<open>d.get(key, default)\<close>.\<close>

definition get_default :: "'a option \<Rightarrow> 'a \<Rightarrow> 'a" where
  "get_default v d = (case v of None \<Rightarrow> d | Some x \<Rightarrow> x)"

text \<open>Sequencing of statements that may raise: the first exception ends the block.\<close>

definition then_do :: "py_error + 'a \<Rightarrow> ('a \<Rightarrow> py_error + 'b) \<Rightarrow> py_error + 'b" where
  "then_do r f = (case r of Inl e \<Rightarrow> Inl e | Inr x \<Rightarrow> f x)"

text \<open>\<open>xs[:n]\<close>: a negative bound counts from the end of the list.\<close>

definition py_take :: "int \<Rightarrow> 'a list \<Rightarrow> 'a list" where
  "py_take n xs =
     (if 0 \<le> n then take (nat n) xs else take (length xs - nat (- n)) xs)"

text \<open>\<open>str.lower()\<close> on code points below 256: the letters A--Z, and the upper-case
  letters of Latin-1 (192--222 without the multiplication sign 215), move up by 32.\<close>

definition lower_char :: "char \<Rightarrow> char" where
  "lower_char c =
     (let n = (of_char c :: nat)
      in if (65 \<le> n \<and> n \<le> 90) \<or> (192 \<le> n \<and> n \<le> 222 \<and> n \<noteq> 215)
         then char_of (n + 32) else c)"

definition lower :: "string \<Rightarrow> string" where
  "lower s = map lower_char s"

text \<open>\<open>str.split()\<close> with no argument: the maximal runs of characters that are not
  whitespace. Below 256 the whitespace characters of a Python \<open>str\<close> are 9--13, 28--32,
  133 and 160.\<close>

definition isspace :: "char \<Rightarrow> bool" where
  "isspace c =
     (let n = (of_char c :: nat)
      in (9 \<le> n \<and> n \<le> 13) \<or> (28 \<le> n \<and> n \<le> 32) \<or> n = 133 \<or> n = 160)"

fun split_words :: "string \<Rightarrow> string \<Rightarrow> string list" where
  "split_words word [] = (if word = [] then [] else [word])"
| "split_words word (c # cs) =
     (if isspace c
      then (if word = [] then split_words [] cs else word # split_words [] cs)
      else split_words (word @ [c]) cs)"

definition split :: "string \<Rightarrow> string list" where
  "split s = split_words [] s"

text \<open>\<open>query.split()[-1]\<close>: indexing an empty list raises \<open>IndexError\<close>.\<close>

definition last_word :: "string \<Rightarrow> py_error + string" where
  "last_word query = (case split query of [] \<Rightarrow> Inl IndexError | w # ws \<Rightarrow> Inr (last (w # ws)))"

section \<open>The video search client (youtube\_service.py, lines 19--76)\<close>

text \<open>
  The provider's answer: an \<open>items\<close> list of
  \<open>{snippet: {title, description, channelTitle, publishedAt, thumbnails}, id: {videoId}}\<close>.
  Every key may be missing; indexing a missing key raises \<open>KeyError\<close>.
\<close>

type_synonym thumbnails = "(string \<times> string) list"

record snippet =
  sn_title :: "string option"
  sn_description :: "string option"
  sn_channelTitle :: "string option"
  sn_publishedAt :: "string option"
  sn_thumbnails :: "thumbnails option"

record resource_id =
  id_videoId :: "string option"

record item =
  it_snippet :: "snippet option"
  it_id :: "resource_id option"

text \<open>The dictionary \<open>video_info\<close> of lines 58--65.\<close>

record video =
  video_title :: string
  video_url :: string
  video_description :: string
  video_channel :: string
  video_published_at :: string
  video_thumbnails :: thumbnails

text \<open>
  What \<open>requests.get\<close> does: it raises (connection error, timeout after 10 seconds),
  or it returns a response with a status code and a body. \<open>response.json()\<close> raises on
  a body that is not JSON; \<open>data.get\<close> raises \<open>AttributeError\<close> on JSON that is not an
  object; an object has an \<open>items\<close> entry or none.
\<close>

datatype json_body = Invalid_json | Not_an_object | Object "item list option"

datatype http_outcome = Transport_error | Response int json_body

text \<open>
  The world outside the process: the environment variable, the provider (its
  answer may depend on the query, on \<open>maxResults\<close> and on how many calls came before),
  and the log of the calls of \<open>search_youtube_videos\<close> so far.
\<close>

record world =
  YOUTUBE_API_KEY :: "string option"
  requests_get :: "nat \<Rightarrow> string \<Rightarrow> int \<Rightarrow> http_outcome"
  calls :: "(string \<times> int) list"

text \<open>Lines 58--65: the dictionary literal reads the item's keys in this order.\<close>

definition video_info :: "item \<Rightarrow> py_error + video" where
  "video_info it =
     then_do (getitem (it_snippet it)) (\<lambda>sn.
     then_do (getitem (sn_title sn)) (\<lambda>title.
     then_do (getitem (it_id it)) (\<lambda>i.
     then_do (getitem (id_videoId i)) (\<lambda>videoId.
     then_do (getitem (sn_description sn)) (\<lambda>description.
     then_do (getitem (sn_channelTitle sn)) (\<lambda>channelTitle.
     then_do (getitem (sn_publishedAt sn)) (\<lambda>publishedAt.
     then_do (getitem (sn_thumbnails sn)) (\<lambda>thumbs.
       Inr \<lparr>video_title = title,
            video_url = ''https://www.youtube.com/watch?v='' @ videoId,
            video_description =
              (if length description > 200 then py_take 200 description @ ''...''
               else description),
            video_channel = channelTitle,
            video_published_at = publishedAt,
            video_thumbnails = thumbs\<rparr>))))))))"

text \<open>Lines 57--66: the loop over the items, appending to \<open>videos\<close>.\<close>

fun items_loop :: "item list \<Rightarrow> video list \<Rightarrow> py_error + video list" where
  "items_loop [] videos = Inr videos"
| "items_loop (it # rest) videos =
     then_do (video_info it) (\<lambda>v. items_loop rest (videos @ [v]))"

text \<open>Lines 51--72: the body of the \<open>try\<close> statement.\<close>

definition try_request :: "http_outcome \<Rightarrow> int \<Rightarrow> py_error + video list" where
  "try_request outcome max_results =
     (case outcome of
        Transport_error \<Rightarrow> Inl RequestException
      | Response status_code body \<Rightarrow>
          if status_code = 200 then
            (case body of
               Invalid_json \<Rightarrow> Inl JSONDecodeError
             | Not_an_object \<Rightarrow> Inl AttributeError
             | Object items \<Rightarrow> items_loop (py_take max_results (get_default items [])) [])
          else Inr [])"

text \<open>
  Lines 30--76. A missing or empty key returns before any request; \<open>except Exception\<close>
  turns every exception of the \<open>try\<close> body into the empty list. Each call is logged.
\<close>

definition search_youtube_videos :: "string \<Rightarrow> int \<Rightarrow> world \<Rightarrow> video list \<times> world" where
  "search_youtube_videos query max_results w =
     (let w' = w\<lparr>calls := calls w @ [(query, max_results)]\<rparr>
      in case YOUTUBE_API_KEY w of
           None \<Rightarrow> ([], w')
         | Some api_key \<Rightarrow>
             if api_key = [] then ([], w')
             else (case try_request (requests_get w (length (calls w)) query max_results)
                          max_results of
                     Inl e \<Rightarrow> ([], w')
                   | Inr videos \<Rightarrow> (videos, w')))"

section \<open>The learning path\<close>

record module =
  mod_title :: "string option"
  mod_subtopics :: "string list option"

record recommendation =
  rec_title :: string
  rec_url :: string
  rec_keywords :: "string list"

record quiz_question =
  question :: string
  options :: "string list"
  correct_answer :: string

text \<open>The dictionary \<open>content\<close> of gemini\_service.py; routes.py adds the topic.\<close>

record content =
  modules :: "module list option"
  youtube_recommendations :: "recommendation list option"
  quiz_questions :: "quiz_question list option"

record learning_path = content +
  topic_of :: string

section \<open>The recommendation enhancer (youtube\_service.py, lines 78--186)\<close>

definition topic_queries :: "string \<Rightarrow> string list" where
  "topic_queries topic =
     [topic @ '' complete tutorial'', topic @ '' course for beginners'',
      topic @ '' fundamentals'']"

text \<open>Lines 105--112: the keywords are built once for every video, so the last word
  of the query is only looked up when there is a video.\<close>

fun topic_videos_loop ::
  "string \<Rightarrow> string \<Rightarrow> video list \<Rightarrow> recommendation list \<Rightarrow> py_error + recommendation list" where
  "topic_videos_loop topic query [] recs = Inr recs"
| "topic_videos_loop topic query (v # rest) recs =
     then_do (last_word query) (\<lambda>lw.
       topic_videos_loop topic query rest
         (recs @ [\<lparr>rec_title = video_title v, rec_url = video_url v,
                   rec_keywords = [lower topic, lw, ''tutorial'']\<rparr>]))"

text \<open>Lines 103--112.\<close>

fun topic_queries_loop ::
  "string \<Rightarrow> string list \<Rightarrow> recommendation list \<Rightarrow> world
     \<Rightarrow> (py_error + recommendation list) \<times> world" where
  "topic_queries_loop topic [] recs w = (Inr recs, w)"
| "topic_queries_loop topic (query # rest) recs w =
     (case search_youtube_videos query 2 w of
        (topic_videos, w') \<Rightarrow>
          (case topic_videos_loop topic query topic_videos recs of
             Inl e \<Rightarrow> (Inl e, w')
           | Inr recs' \<Rightarrow> topic_queries_loop topic rest recs' w'))"

text \<open>The loops \<open>for video in videos\<close> of lines 128--133, 148--153 and 160--165.\<close>

fun videos_loop ::
  "string list \<Rightarrow> video list \<Rightarrow> recommendation list \<Rightarrow> recommendation list" where
  "videos_loop kws [] recs = recs"
| "videos_loop kws (v # rest) recs =
     videos_loop kws rest
       (recs @ [\<lparr>rec_title = video_title v, rec_url = video_url v, rec_keywords = kws\<rparr>])"

text \<open>The state of the module loop: \<open>enhanced_recommendations\<close>, \<open>searched_keywords\<close>
  and the world.\<close>

type_synonym enhancer_state = "recommendation list \<times> string set \<times> world"

text \<open>Lines 126--134 and 146--154: one search for each query of the list, then the
  key (the module title or the subtopic) is added to \<open>searched_keywords\<close>.\<close>

fun queries_loop ::
  "string list \<Rightarrow> string list \<Rightarrow> string \<Rightarrow> enhancer_state \<Rightarrow> enhancer_state" where
  "queries_loop [] kws key st = st"
| "queries_loop (query # rest) kws key (recs, searched_keywords, w) =
     (case search_youtube_videos query 1 w of
        (videos, w') \<Rightarrow>
          queries_loop rest kws key
            (videos_loop kws videos recs, insert key searched_keywords, w'))"

definition module_queries :: "string \<Rightarrow> string \<Rightarrow> string list" where
  "module_queries topic module_title =
     [module_title @ '' explained'', module_title @ '' tutorial '' @ topic,
      topic @ '' '' @ module_title]"

definition subtopic_queries :: "string \<Rightarrow> string \<Rightarrow> string list" where
  "subtopic_queries topic subtopic =
     [subtopic @ '' '' @ topic @ '' tutorial'', topic @ '' '' @ subtopic @ '' explained'']"

text \<open>Lines 138--154.\<close>

fun subtopics_loop :: "string \<Rightarrow> string list \<Rightarrow> enhancer_state \<Rightarrow> enhancer_state" where
  "subtopics_loop topic [] st = st"
| "subtopics_loop topic (subtopic # rest) (recs, searched_keywords, w) =
     subtopics_loop topic rest
       (if subtopic \<noteq> [] \<and> subtopic \<notin> searched_keywords
        then queries_loop (py_take 1 (subtopic_queries topic subtopic))
               [lower topic, lower subtopic, ''concept''] subtopic
               (recs, searched_keywords, w)
        else (recs, searched_keywords, w))"

text \<open>Lines 116--154.\<close>

fun modules_loop :: "string \<Rightarrow> module list \<Rightarrow> enhancer_state \<Rightarrow> enhancer_state" where
  "modules_loop topic [] st = st"
| "modules_loop topic (m # rest) (recs, searched_keywords, w) =
     (let module_title = get_default (mod_title m) [];
          st1 = (if module_title \<noteq> [] \<and> module_title \<notin> searched_keywords
                 then queries_loop (py_take 1 (module_queries topic module_title))
                        [lower topic, lower module_title, ''module''] module_title
                        (recs, searched_keywords, w)
                 else (recs, searched_keywords, w));
          subtopics = get_default (mod_subtopics m) []
      in modules_loop topic rest (subtopics_loop topic (py_take 2 subtopics) st1))"

text \<open>Lines 156--165.\<close>

definition fill_recommendations ::
  "string \<Rightarrow> recommendation list \<Rightarrow> world \<Rightarrow> recommendation list \<times> world" where
  "fill_recommendations topic recs w =
     (if length recs < 5
      then (case search_youtube_videos (topic @ '' advanced tutorial'')
                   (5 - int (length recs)) w of
              (additional_videos, w') \<Rightarrow>
                (videos_loop [lower topic, ''advanced'', ''tutorial''] additional_videos recs, w'))
      else (recs, w))"

text \<open>Lines 167--174: the loop \<open>for rec in enhanced_recommendations\<close> with its two
  accumulators, the list \<open>unique_recommendations\<close> and the set \<open>seen_urls\<close>.\<close>

fun dedup_loop ::
  "recommendation list \<Rightarrow> recommendation list \<Rightarrow> string set \<Rightarrow> recommendation list" where
  "dedup_loop [] unique seen_urls = unique"
| "dedup_loop (r # rest) unique seen_urls =
     (if rec_url r \<notin> seen_urls
      then dedup_loop rest (unique @ [r]) (insert (rec_url r) seen_urls)
      else dedup_loop rest unique seen_urls)"

definition unique_recommendations :: "recommendation list \<Rightarrow> recommendation list" where
  "unique_recommendations enhanced_recommendations =
     dedup_loop enhanced_recommendations [] {}"

text \<open>Line 177.\<close>

definition final_recommendations :: "recommendation list \<Rightarrow> recommendation list" where
  "final_recommendations enhanced_recommendations =
     py_take 5 (unique_recommendations enhanced_recommendations)"

text \<open>Lines 93--165: the three search phases, giving \<open>enhanced_recommendations\<close>.\<close>

definition collect_recommendations ::
  "string \<Rightarrow> learning_path \<Rightarrow> world \<Rightarrow> (py_error + recommendation list) \<times> world" where
  "collect_recommendations topic learning_path w =
     (case topic_queries_loop topic (py_take 2 (topic_queries topic)) [] w of
        (Inl e, w1) \<Rightarrow> (Inl e, w1)
      | (Inr recs1, w1) \<Rightarrow>
          (case modules_loop topic (py_take 3 (get_default (modules learning_path) []))
                  (recs1, {}, w1) of
             (recs2, searched_keywords, w2) \<Rightarrow>
               (case fill_recommendations topic recs2 w2 of
                  (recs3, w3) \<Rightarrow> (Inr recs3, w3))))"

text \<open>Lines 78--186. The dictionary is updated in place and returned; here the
  updated record is returned.\<close>

definition enhance_learning_path_with_youtube ::
  "string \<Rightarrow> learning_path \<Rightarrow> world \<Rightarrow> (py_error + learning_path) \<times> world" where
  "enhance_learning_path_with_youtube topic learning_path w =
     (case collect_recommendations topic learning_path w of
        (Inl e, w') \<Rightarrow> (Inl e, w')
      | (Inr enhanced_recommendations, w') \<Rightarrow>
          (let final = final_recommendations enhanced_recommendations
           in if final \<noteq> []
              then (Inr (learning_path\<lparr>youtube_recommendations := Some final\<rparr>), w')
              else (Inr learning_path, w')))"

section \<open>The content generator (gemini\_service.py, lines 32--468)\<close>

text \<open>Lines 145--154 of gemini\_service.py.\<close>

definition unparsed_modules :: "string \<Rightarrow> module list" where
  "unparsed_modules topic =
     [\<lparr>mod_title = Some (''Introduction to '' @ topic),
        mod_subtopics = Some
          [''Basics of '' @ topic, ''Fundamentals of '' @ topic,
           ''Getting Started with '' @ topic, ''Core Concepts of '' @ topic,
           ''Overview of '' @ topic]\<rparr>,
      \<lparr>mod_title = Some (''Intermediate '' @ topic),
        mod_subtopics = Some
          [''Advanced '' @ topic @ '' Concepts'', topic @ '' Best Practices'',
           ''Real-world '' @ topic @ '' Applications'', topic @ '' Tools and Techniques'',
           ''Problem Solving with '' @ topic]\<rparr>]"

text \<open>Lines 155--161 of gemini\_service.py.\<close>

definition unparsed_youtube_recommendations :: "string \<Rightarrow> recommendation list" where
  "unparsed_youtube_recommendations topic =
     [\<lparr>rec_title = ''Learn '' @ topic,
        rec_url = ''https://youtube.com'',
        rec_keywords = [lower topic, ''tutorial'']\<rparr>]"

text \<open>Lines 162--168 of gemini\_service.py.\<close>

definition unparsed_quiz_questions :: "string \<Rightarrow> quiz_question list" where
  "unparsed_quiz_questions topic =
     [\<lparr>question = ''What is '' @ topic @ ''?'',
        options =
          [''A'', ''B'', ''C'', ''D''],
        correct_answer = ''A''\<rparr>]"

text \<open>Lines 173--186 of gemini\_service.py.\<close>

definition ensured_modules :: "string \<Rightarrow> module list" where
  "ensured_modules topic =
     [\<lparr>mod_title = Some (''Foundations of '' @ topic),
        mod_subtopics = Some
          [''Introduction to '' @ topic, ''Basic Principles'', ''Core Components'',
           ''Essential Tools'', ''Getting Started'']\<rparr>,
      \<lparr>mod_title = Some (''Intermediate '' @ topic),
        mod_subtopics = Some
          [''Advanced Concepts'', ''Practical Applications'', ''Problem Solving'',
           ''Best Practices'', ''Real-world Examples'']\<rparr>,
      \<lparr>mod_title = Some (''Advanced '' @ topic),
        mod_subtopics = Some
          [''Expert Techniques'', ''Optimization Strategies'', ''Industry Applications'',
           ''Cutting-edge Developments'', ''Future Trends'']\<rparr>]"

text \<open>Lines 189--215 of gemini\_service.py.\<close>

definition ensured_youtube_recommendations :: "string \<Rightarrow> recommendation list" where
  "ensured_youtube_recommendations topic =
     [\<lparr>rec_title = ''Complete '' @ topic @ '' Course for Beginners'',
        rec_url = ''https://youtube.com/watch?v=beginner'',
        rec_keywords = [lower topic, ''course'', ''beginner'']\<rparr>,
      \<lparr>rec_title = ''Advanced '' @ topic @ '' Tutorial'',
        rec_url = ''https://youtube.com/watch?v=advanced'',
        rec_keywords = [lower topic, ''tutorial'', ''advanced'']\<rparr>,
      \<lparr>rec_title = topic @ '' Projects and Examples'',
        rec_url = ''https://youtube.com/watch?v=projects'',
        rec_keywords = [lower topic, ''projects'', ''examples'']\<rparr>,
      \<lparr>rec_title = topic @ '' Tips and Tricks'',
        rec_url = ''https://youtube.com/watch?v=tips'',
        rec_keywords = [lower topic, ''tips'', ''tricks'']\<rparr>,
      \<lparr>rec_title = ''Mastering '' @ topic,
        rec_url = ''https://youtube.com/watch?v=master'',
        rec_keywords = [lower topic, ''master'', ''expert'']\<rparr>]"

text \<open>Lines 218--269 of gemini\_service.py.\<close>

definition ensured_quiz_questions :: "string \<Rightarrow> quiz_question list" where
  "ensured_quiz_questions topic =
     [\<lparr>question = ''What is the primary purpose of '' @ topic @ ''?'',
        options =
          [''To solve '' @ topic @ ''-related problems'', ''To create art'',
           ''To play games'', ''To browse the internet''],
        correct_answer = ''To solve '' @ topic @ ''-related problems''\<rparr>,
      \<lparr>question = ''Which of these is a fundamental concept in '' @ topic @ ''?'',
        options =
          [''Core principle 1'', ''Random concept'', ''Irrelevant topic'',
           ''Unrelated field''],
        correct_answer = ''Core principle 1''\<rparr>,
      \<lparr>question = ''What is an important skill in '' @ topic @ ''?'',
        options =
          [''Key skill'', ''Unrelated ability'', ''Irrelevant knowledge'',
           ''Random talent''],
        correct_answer = ''Key skill''\<rparr>,
      \<lparr>question = ''What tool is commonly used in '' @ topic @ ''?'',
        options =
          [''Essential tool'', ''Unrelated software'', ''Irrelevant application'',
           ''Random program''],
        correct_answer = ''Essential tool''\<rparr>,
      \<lparr>question = ''What is a benefit of learning '' @ topic @ ''?'',
        options =
          [''Key benefit'', ''Unrelated advantage'', ''Irrelevant gain'',
           ''Random improvement''],
        correct_answer = ''Key benefit''\<rparr>,
      \<lparr>question = ''What is a common challenge in '' @ topic @ ''?'',
        options =
          [''Typical difficulty'', ''Unrelated obstacle'', ''Irrelevant problem'',
           ''Random issue''],
        correct_answer = ''Typical difficulty''\<rparr>,
      \<lparr>question = ''What is an advanced technique in '' @ topic @ ''?'',
        options =
          [''Expert method'', ''Basic approach'', ''Simple technique'',
           ''Elementary strategy''],
        correct_answer = ''Expert method''\<rparr>,
      \<lparr>question = ''What is a best practice in '' @ topic @ ''?'',
        options =
          [''Recommended approach'', ''Outdated method'', ''Inefficient technique'',
           ''Poor strategy''],
        correct_answer = ''Recommended approach''\<rparr>,
      \<lparr>question = ''What is a real-world application of '' @ topic @ ''?'',
        options =
          [''Practical use case'', ''Theoretical concept'', ''Academic exercise'',
           ''Hypothetical scenario''],
        correct_answer = ''Practical use case''\<rparr>,
      \<lparr>question = ''What is the future of '' @ topic @ ''?'',
        options =
          [''Emerging trend'', ''Declining field'', ''Stagnant area'',
           ''Obsolete technology''],
        correct_answer = ''Emerging trend''\<rparr>]"

text \<open>Lines 277--290 of gemini\_service.py.\<close>

definition timeout_modules :: "string \<Rightarrow> module list" where
  "timeout_modules topic =
     [\<lparr>mod_title = Some (''Introduction to '' @ topic),
        mod_subtopics = Some
          [''Basics of '' @ topic, ''Fundamentals of '' @ topic,
           ''Getting Started with '' @ topic, ''Core Concepts of '' @ topic,
           ''Overview of '' @ topic]\<rparr>,
      \<lparr>mod_title = Some (''Intermediate '' @ topic),
        mod_subtopics = Some
          [''Advanced '' @ topic @ '' Concepts'', topic @ '' Best Practices'',
           ''Real-world '' @ topic @ '' Applications'', topic @ '' Tools and Techniques'',
           ''Problem Solving with '' @ topic]\<rparr>,
      \<lparr>mod_title = Some (''Advanced '' @ topic),
        mod_subtopics = Some
          [''Expert Techniques'', ''Optimization Strategies'', ''Industry Applications'',
           ''Cutting-edge Developments'', ''Future Trends'']\<rparr>]"

text \<open>Lines 291--317 of gemini\_service.py.\<close>

definition timeout_youtube_recommendations :: "string \<Rightarrow> recommendation list" where
  "timeout_youtube_recommendations topic =
     [\<lparr>rec_title = ''Complete '' @ topic @ '' Tutorial for Beginners'',
        rec_url = ''https://youtube.com'',
        rec_keywords = [lower topic, ''tutorial'', ''beginner'']\<rparr>,
      \<lparr>rec_title = ''Advanced '' @ topic @ '' Techniques'',
        rec_url = ''https://youtube.com'',
        rec_keywords = [lower topic, ''advanced'', ''techniques'']\<rparr>,
      \<lparr>rec_title = topic @ '' Projects and Examples'',
        rec_url = ''https://youtube.com'',
        rec_keywords = [lower topic, ''projects'', ''examples'']\<rparr>,
      \<lparr>rec_title = topic @ '' Tips and Tricks'',
        rec_url = ''https://youtube.com'',
        rec_keywords = [lower topic, ''tips'', ''tricks'']\<rparr>,
      \<lparr>rec_title = ''Mastering '' @ topic,
        rec_url = ''https://youtube.com'',
        rec_keywords = [lower topic, ''master'', ''expert'']\<rparr>]"

text \<open>Lines 318--369 of gemini\_service.py.\<close>

definition timeout_quiz_questions :: "string \<Rightarrow> quiz_question list" where
  "timeout_quiz_questions topic =
     [\<lparr>question = ''What is '' @ topic @ '' primarily used for?'',
        options =
          [''To solve '' @ topic @ ''-related problems'', ''To create art'',
           ''To play games'', ''To browse the internet''],
        correct_answer = ''To solve '' @ topic @ ''-related problems''\<rparr>,
      \<lparr>question = ''Which of these is a fundamental concept in '' @ topic @ ''?'',
        options =
          [''Core principle 1'', ''Random concept'', ''Irrelevant topic'',
           ''Unrelated field''],
        correct_answer = ''Core principle 1''\<rparr>,
      \<lparr>question = ''What is an important skill in '' @ topic @ ''?'',
        options =
          [''Key skill'', ''Unrelated ability'', ''Irrelevant knowledge'',
           ''Random talent''],
        correct_answer = ''Key skill''\<rparr>,
      \<lparr>question = ''What tool is commonly used in '' @ topic @ ''?'',
        options =
          [''Essential tool'', ''Unrelated software'', ''Irrelevant application'',
           ''Random program''],
        correct_answer = ''Essential tool''\<rparr>,
      \<lparr>question = ''What is a benefit of learning '' @ topic @ ''?'',
        options =
          [''Key benefit'', ''Unrelated advantage'', ''Irrelevant gain'',
           ''Random improvement''],
        correct_answer = ''Key benefit''\<rparr>,
      \<lparr>question = ''What is a common challenge in '' @ topic @ ''?'',
        options =
          [''Typical difficulty'', ''Unrelated obstacle'', ''Irrelevant problem'',
           ''Random issue''],
        correct_answer = ''Typical difficulty''\<rparr>,
      \<lparr>question = ''What is an advanced technique in '' @ topic @ ''?'',
        options =
          [''Expert method'', ''Basic approach'', ''Simple technique'',
           ''Elementary strategy''],
        correct_answer = ''Expert method''\<rparr>,
      \<lparr>question = ''What is a best practice in '' @ topic @ ''?'',
        options =
          [''Recommended approach'', ''Outdated method'', ''Inefficient technique'',
           ''Poor strategy''],
        correct_answer = ''Recommended approach''\<rparr>,
      \<lparr>question = ''What is a real-world application of '' @ topic @ ''?'',
        options =
          [''Practical use case'', ''Theoretical concept'', ''Academic exercise'',
           ''Hypothetical scenario''],
        correct_answer = ''Practical use case''\<rparr>,
      \<lparr>question = ''What is the future of '' @ topic @ ''?'',
        options =
          [''Emerging trend'', ''Declining field'', ''Stagnant area'',
           ''Obsolete technology''],
        correct_answer = ''Emerging trend''\<rparr>]"

text \<open>Lines 375--388 of gemini\_service.py.\<close>

definition error_modules :: "string \<Rightarrow> module list" where
  "error_modules topic =
     [\<lparr>mod_title = Some (''Introduction to '' @ topic),
        mod_subtopics = Some
          [''Basics of '' @ topic, ''Fundamentals of '' @ topic,
           ''Getting Started with '' @ topic, ''Core Concepts of '' @ topic,
           ''Overview of '' @ topic]\<rparr>,
      \<lparr>mod_title = Some (''Intermediate '' @ topic),
        mod_subtopics = Some
          [''Advanced '' @ topic @ '' Concepts'', topic @ '' Best Practices'',
           ''Real-world '' @ topic @ '' Applications'', topic @ '' Tools and Techniques'',
           ''Problem Solving with '' @ topic]\<rparr>,
      \<lparr>mod_title = Some (''Advanced '' @ topic),
        mod_subtopics = Some
          [''Expert Techniques'', ''Optimization Strategies'', ''Industry Applications'',
           ''Cutting-edge Developments'', ''Future Trends'']\<rparr>]"

text \<open>Lines 389--415 of gemini\_service.py.\<close>

definition error_youtube_recommendations :: "string \<Rightarrow> recommendation list" where
  "error_youtube_recommendations topic =
     [\<lparr>rec_title = ''Complete '' @ topic @ '' Tutorial for Beginners'',
        rec_url = ''https://youtube.com'',
        rec_keywords = [lower topic, ''tutorial'', ''beginner'']\<rparr>,
      \<lparr>rec_title = ''Advanced '' @ topic @ '' Techniques'',
        rec_url = ''https://youtube.com'',
        rec_keywords = [lower topic, ''advanced'', ''techniques'']\<rparr>,
      \<lparr>rec_title = topic @ '' Projects and Examples'',
        rec_url = ''https://youtube.com'',
        rec_keywords = [lower topic, ''projects'', ''examples'']\<rparr>,
      \<lparr>rec_title = topic @ '' Tips and Tricks'',
        rec_url = ''https://youtube.com'',
        rec_keywords = [lower topic, ''tips'', ''tricks'']\<rparr>,
      \<lparr>rec_title = ''Mastering '' @ topic,
        rec_url = ''https://youtube.com'',
        rec_keywords = [lower topic, ''master'', ''expert'']\<rparr>]"

text \<open>Lines 416--467 of gemini\_service.py.\<close>

definition error_quiz_questions :: "string \<Rightarrow> quiz_question list" where
  "error_quiz_questions topic =
     [\<lparr>question = ''What is '' @ topic @ '' primarily used for?'',
        options =
          [''To solve '' @ topic @ ''-related problems'', ''To create art'',
           ''To play games'', ''To browse the internet''],
        correct_answer = ''To solve '' @ topic @ ''-related problems''\<rparr>,
      \<lparr>question = ''Which of these is a fundamental concept in '' @ topic @ ''?'',
        options =
          [''Core principle 1'', ''Random concept'', ''Irrelevant topic'',
           ''Unrelated field''],
        correct_answer = ''Core principle 1''\<rparr>,
      \<lparr>question = ''What is an important skill in '' @ topic @ ''?'',
        options =
          [''Key skill'', ''Unrelated ability'', ''Irrelevant knowledge'',
           ''Random talent''],
        correct_answer = ''Key skill''\<rparr>,
      \<lparr>question = ''What tool is commonly used in '' @ topic @ ''?'',
        options =
          [''Essential tool'', ''Unrelated software'', ''Irrelevant application'',
           ''Random program''],
        correct_answer = ''Essential tool''\<rparr>,
      \<lparr>question = ''What is a benefit of learning '' @ topic @ ''?'',
        options =
          [''Key benefit'', ''Unrelated advantage'', ''Irrelevant gain'',
           ''Random improvement''],
        correct_answer = ''Key benefit''\<rparr>,
      \<lparr>question = ''What is a common challenge in '' @ topic @ ''?'',
        options =
          [''Typical difficulty'', ''Unrelated obstacle'', ''Irrelevant problem'',
           ''Random issue''],
        correct_answer = ''Typical difficulty''\<rparr>,
      \<lparr>question = ''What is an advanced technique in '' @ topic @ ''?'',
        options =
          [''Expert method'', ''Basic approach'', ''Simple technique'',
           ''Elementary strategy''],
        correct_answer = ''Expert method''\<rparr>,
      \<lparr>question = ''What is a best practice in '' @ topic @ ''?'',
        options =
          [''Recommended approach'', ''Outdated method'', ''Inefficient technique'',
           ''Poor strategy''],
        correct_answer = ''Recommended approach''\<rparr>,
      \<lparr>question = ''What is a real-world application of '' @ topic @ ''?'',
        options =
          [''Practical use case'', ''Theoretical concept'', ''Academic exercise'',
           ''Hypothetical scenario''],
        correct_answer = ''Practical use case''\<rparr>,
      \<lparr>question = ''What is the future of '' @ topic @ ''?'',
        options =
          [''Emerging trend'', ''Declining field'', ''Stagnant area'',
           ''Obsolete technology''],
        correct_answer = ''Emerging trend''\<rparr>]"

text \<open>
  What the call to the model does: \<open>configure_gemini\<close> raises \<open>ValueError\<close> when the
  credential is not set; \<open>asyncio.wait_for\<close> raises \<open>TimeoutError\<close> after 90 seconds; the
  client raises some other exception; or there is a response with a text.
\<close>

datatype generator_outcome = Config_missing | Timed_out | Raised | Replied string

text \<open>
  Line 138, \<open>re.search(r'\{.*\}', text, re.DOTALL)\<close>: the span from the first opening
  brace to the last closing brace after it, if there is one.
\<close>

definition re_search_braces :: "string \<Rightarrow> string option" where
  "re_search_braces text =
     (let rest = dropWhile (\<lambda>c. c \<noteq> CHR ''{'') text
      in if CHR ''}'' \<in> set rest
         then Some (rev (dropWhile (\<lambda>c. c \<noteq> CHR ''}'') (rev rest)))
         else None)"

text \<open>
  Lines 131--169. \<open>json.loads\<close> is a parameter: \<open>None\<close> where it raises
  \<open>JSONDecodeError\<close>, and otherwise the parsed object, taken to have the shape the prompt
  asks for (each of the three keys present or not, its value a list of the schema's
  records). The second \<open>json.loads\<close> runs inside the handler of the first, so its
  exception leaves the block and reaches the handler of line 371.
\<close>

definition parse_response ::
  "(string \<Rightarrow> content option) \<Rightarrow> string \<Rightarrow> string \<Rightarrow> py_error + content" where
  "parse_response json_loads topic text =
     (case json_loads text of
        Some c \<Rightarrow> Inr c
      | None \<Rightarrow>
          (case re_search_braces text of
             Some json_match \<Rightarrow>
               (case json_loads json_match of
                  Some c \<Rightarrow> Inr c
                | None \<Rightarrow> Inl JSONDecodeError)
           | None \<Rightarrow>
               Inr \<lparr>modules = Some (unparsed_modules topic),
                    youtube_recommendations = Some (unparsed_youtube_recommendations topic),
                    quiz_questions = Some (unparsed_quiz_questions topic)\<rparr>))"

text \<open>\<open>key not in content or len(content[key]) < n\<close>.\<close>

definition too_few :: "'a list option \<Rightarrow> nat \<Rightarrow> bool" where
  "too_few v n = (case v of None \<Rightarrow> True | Some xs \<Rightarrow> length xs < n)"

text \<open>Lines 171--269.\<close>

definition ensure_required_items :: "string \<Rightarrow> content \<Rightarrow> content" where
  "ensure_required_items topic c =
     (let c1 = (if too_few (modules c) 2
                then c\<lparr>modules := Some (ensured_modules topic)\<rparr> else c);
          c2 = (if too_few (youtube_recommendations c1) 3
                then c1\<lparr>youtube_recommendations := Some (ensured_youtube_recommendations topic)\<rparr>
                else c1)
      in if too_few (quiz_questions c2) 5
         then c2\<lparr>quiz_questions := Some (ensured_quiz_questions topic)\<rparr> else c2)"

text \<open>Lines 43--271: the body of the \<open>try\<close> statement.\<close>

definition try_generate ::
  "(string \<Rightarrow> content option) \<Rightarrow> string \<Rightarrow> generator_outcome \<Rightarrow> py_error + content" where
  "try_generate json_loads topic outcome =
     (case outcome of
        Config_missing \<Rightarrow> Inl ValueError
      | Timed_out \<Rightarrow> Inl TimeoutError
      | Raised \<Rightarrow> Inl OtherException
      | Replied text \<Rightarrow>
          then_do (parse_response json_loads topic text)
            (\<lambda>c. Inr (ensure_required_items topic c)))"

text \<open>The two handlers, lines 273--370 and 371--468.\<close>

definition timeout_default :: "string \<Rightarrow> content" where
  "timeout_default topic =
     \<lparr>modules = Some (timeout_modules topic),
      youtube_recommendations = Some (timeout_youtube_recommendations topic),
      quiz_questions = Some (timeout_quiz_questions topic)\<rparr>"

definition error_default :: "string \<Rightarrow> content" where
  "error_default topic =
     \<lparr>modules = Some (error_modules topic),
      youtube_recommendations = Some (error_youtube_recommendations topic),
      quiz_questions = Some (error_quiz_questions topic)\<rparr>"

definition generate_learning_path_content ::
  "(string \<Rightarrow> content option) \<Rightarrow> string \<Rightarrow> generator_outcome \<Rightarrow> content" where
  "generate_learning_path_content json_loads topic outcome =
     (case try_generate json_loads topic outcome of
        Inr c \<Rightarrow> c
      | Inl e \<Rightarrow> if e = TimeoutError then timeout_default topic else error_default topic)"

section \<open>The path assembler (routes.py, lines 45--81)\<close>


section \<open>Auxiliary definitions\<close>

text \<open>The deduplication loop without its list accumulator: the entries whose url has
  not been seen before, in order.\<close>

fun fresh_entries :: "string set \<Rightarrow> recommendation list \<Rightarrow> recommendation list" where
  "fresh_entries seen [] = []"
| "fresh_entries seen (r # rest) =
     (if rec_url r \<notin> seen then r # fresh_entries (insert (rec_url r) seen) rest
      else fresh_entries seen rest)"


section \<open>Deduplication\<close>

lemma py_take_nonneg: "0 \<le> n \<Longrightarrow> py_take n xs = take (nat n) xs"
  by (simp add: py_take_def)

lemma py_take_5: "py_take 5 xs = take 5 xs"
  by (simp add: py_take_def)

lemma dedup_loop_fresh: "dedup_loop recs acc seen = acc @ fresh_entries seen recs"
  by (induction recs arbitrary: acc seen) simp_all

lemma unique_fresh: "unique_recommendations recs = fresh_entries {} recs"
  by (simp add: unique_recommendations_def dedup_loop_fresh)

lemma fresh_urls_unseen: "rec_url ` set (fresh_entries seen recs) \<inter> seen = {}"
  by (induction recs arbitrary: seen) auto

lemma fresh_urls: "rec_url ` set (fresh_entries seen recs) = rec_url ` set recs - seen"
  by (induction recs arbitrary: seen) auto

lemma fresh_distinct: "distinct (map rec_url (fresh_entries seen recs))"
proof (induction recs arbitrary: seen)
  case Nil
  show ?case by simp
next
  case (Cons r rest)
  have "rec_url r \<notin> rec_url ` set (fresh_entries (insert (rec_url r) seen) rest)"
    using fresh_urls_unseen [of "insert (rec_url r) seen" rest] by blast
  with Cons show ?case by simp
qed

lemma fresh_subseq: "subseq (fresh_entries seen recs) recs"
  by (induction recs arbitrary: seen) auto

lemma fresh_mem:
  "r \<in> set (fresh_entries seen recs) \<Longrightarrow> r \<in> set recs \<and> rec_url r \<notin> seen"
proof -
  assume m: "r \<in> set (fresh_entries seen recs)"
  then have "rec_url r \<in> rec_url ` set (fresh_entries seen recs)" by (rule imageI)
  then have "rec_url r \<notin> seen" using fresh_urls_unseen [of seen recs] by blast
  moreover have "set (fresh_entries seen recs) \<subseteq> set recs"
    by (induction recs arbitrary: seen) auto
  ultimately show ?thesis using m by blast
qed

lemma fresh_first:
  "r \<in> set (fresh_entries seen recs) \<Longrightarrow> find (\<lambda>x. rec_url x = rec_url r) recs = Some r"
proof (induction recs arbitrary: seen)
  case Nil
  then show ?case by simp
next
  case (Cons a rest)
  show ?case
  proof (cases "rec_url a \<in> seen")
    case True
    with Cons.prems have m: "r \<in> set (fresh_entries seen rest)" by simp
    from fresh_mem [OF m] True have "rec_url a \<noteq> rec_url r" by metis
    with Cons.IH [OF m] show ?thesis by simp
  next
    case False
    with Cons.prems have "r = a \<or> r \<in> set (fresh_entries (insert (rec_url a) seen) rest)"
      by simp
    then show ?thesis
    proof
      assume "r = a"
      then show ?thesis by simp
    next
      assume m: "r \<in> set (fresh_entries (insert (rec_url a) seen) rest)"
      from fresh_mem [OF m] have "rec_url a \<noteq> rec_url r" by auto
      with Cons.IH [OF m] show ?thesis by simp
    qed
  qed
qed

lemma fresh_id: "distinct (map rec_url recs) \<Longrightarrow> rec_url ` set recs \<inter> seen = {}
    \<Longrightarrow> fresh_entries seen recs = recs"
proof (induction recs arbitrary: seen)
  case Nil
  show ?case by simp
next
  case (Cons r rest)
  from Cons.prems have "rec_url r \<notin> seen" by auto
  moreover from Cons.prems have "rec_url ` set rest \<inter> insert (rec_url r) seen = {}"
    by auto
  moreover from Cons.prems have "distinct (map rec_url rest)" by simp
  ultimately show ?case using Cons.IH by simp
qed

lemma unique_distinct: "distinct (map rec_url (unique_recommendations recs))"
  by (simp add: unique_fresh fresh_distinct)

lemma final_distinct: "distinct (map rec_url (final_recommendations recs))"
  using unique_distinct [of recs]
  by (simp add: final_recommendations_def py_take_5 take_map [symmetric] distinct_take)

lemma final_length: "length (final_recommendations recs) \<le> 5"
  by (simp add: final_recommendations_def py_take_5)


text \<open>
  Claim C6. The deduplication step keeps, for every url of the accumulated list, exactly
  the first entry with that url (no url twice, every url kept, each kept entry is the
  first one found with its url), keeps the order of the list, and the final list is its
  first five entries. With two entries of one url and different titles, only the first
  survives.
\<close>

theorem dedup_keeps_first_seen:
  "distinct (map rec_url (unique_recommendations recs))
   \<and> rec_url ` set (unique_recommendations recs) = rec_url ` set recs
   \<and> (\<forall>r \<in> set (unique_recommendations recs).
         find (\<lambda>x. rec_url x = rec_url r) recs = Some r)
   \<and> subseq (unique_recommendations recs) recs
   \<and> final_recommendations recs = take 5 (unique_recommendations recs)"
proof -
  have "rec_url ` set (unique_recommendations recs) = rec_url ` set recs"
    by (simp add: unique_fresh fresh_urls)
  moreover have "\<forall>r \<in> set (unique_recommendations recs).
      find (\<lambda>x. rec_url x = rec_url r) recs = Some r"
    by (simp add: unique_fresh fresh_first)
  moreover have "subseq (unique_recommendations recs) recs"
    by (simp add: unique_fresh fresh_subseq)
  moreover have "final_recommendations recs = take 5 (unique_recommendations recs)"
    by (simp add: final_recommendations_def py_take_5)
  ultimately show ?thesis using unique_distinct [of recs] by blast
qed

theorem dedup_keeps_first_seen_witness:
  "unique_recommendations
     [\<lparr>rec_title = ''First'', rec_url = ''https://www.youtube.com/watch?v=abc'', rec_keywords = [''rust'']\<rparr>,
      \<lparr>rec_title = ''Other'', rec_url = ''https://www.youtube.com/watch?v=xyz'', rec_keywords = [''rust'']\<rparr>,
      \<lparr>rec_title = ''Second'', rec_url = ''https://www.youtube.com/watch?v=abc'', rec_keywords = [''rust'']\<rparr>]
   = [\<lparr>rec_title = ''First'', rec_url = ''https://www.youtube.com/watch?v=abc'', rec_keywords = [''rust'']\<rparr>,
      \<lparr>rec_title = ''Other'', rec_url = ''https://www.youtube.com/watch?v=xyz'', rec_keywords = [''rust'']\<rparr>]
   \<and> find (\<lambda>x. rec_url x = ''https://www.youtube.com/watch?v=abc'')
       [\<lparr>rec_title = ''First'', rec_url = ''https://www.youtube.com/watch?v=abc'', rec_keywords = [''rust'']\<rparr>,
        \<lparr>rec_title = ''Other'', rec_url = ''https://www.youtube.com/watch?v=xyz'', rec_keywords = [''rust'']\<rparr>,
        \<lparr>rec_title = ''Second'', rec_url = ''https://www.youtube.com/watch?v=abc'', rec_keywords = [''rust'']\<rparr>]
     = Some \<lparr>rec_title = ''First'', rec_url = ''https://www.youtube.com/watch?v=abc'', rec_keywords = [''rust'']\<rparr>"
  using dedup_keeps_first_seen
    [of "[\<lparr>rec_title = ''First'', rec_url = ''https://www.youtube.com/watch?v=abc'', rec_keywords = [''rust'']\<rparr>,
      \<lparr>rec_title = ''Other'', rec_url = ''https://www.youtube.com/watch?v=xyz'', rec_keywords = [''rust'']\<rparr>,
      \<lparr>rec_title = ''Second'', rec_url = ''https://www.youtube.com/watch?v=abc'', rec_keywords = [''rust'']\<rparr>]"]
  by (simp add: unique_recommendations_def)

text \<open>
  Claim C7. Deduplication by url followed by truncation to five entries is idempotent:
  applied to its own result it changes nothing.
\<close>

theorem dedup_truncate_idempotent:
  "final_recommendations (final_recommendations recs) = final_recommendations recs"
proof -
  let ?f = "final_recommendations recs"
  have "unique_recommendations ?f = ?f"
    using final_distinct [of recs] by (simp add: unique_fresh fresh_id)
  then have "final_recommendations ?f = take 5 ?f"
    by (simp add: final_recommendations_def py_take_5)
  also have "\<dots> = ?f"
    using final_length [of recs] by simp
  finally show ?thesis .
qed

theorem dedup_truncate_idempotent_witness:
  "final_recommendations (final_recommendations
     [\<lparr>rec_title = ''a'', rec_url = ''u'', rec_keywords = []\<rparr>,
      \<lparr>rec_title = ''b'', rec_url = ''u'', rec_keywords = []\<rparr>])
   = [\<lparr>rec_title = ''a'', rec_url = ''u'', rec_keywords = []\<rparr>]"
  using dedup_truncate_idempotent
    [of "[\<lparr>rec_title = ''a'', rec_url = ''u'', rec_keywords = []\<rparr>,
      \<lparr>rec_title = ''b'', rec_url = ''u'', rec_keywords = []\<rparr>]"]
  by (simp add: final_recommendations_def unique_recommendations_def py_take_def)

section \<open>The video search client\<close>

lemma search_calls:
  "calls (snd (search_youtube_videos query max_results w)) = calls w @ [(query, max_results)]"
  by (simp add: search_youtube_videos_def Let_def split: option.split sum.split)

lemma search_world:
  "snd (search_youtube_videos query max_results w) = w\<lparr>calls := calls w @ [(query, max_results)]\<rparr>"
  by (simp add: search_youtube_videos_def Let_def split: option.split sum.split)

lemma search_no_key:
  "YOUTUBE_API_KEY w = None \<or> YOUTUBE_API_KEY w = Some [] \<Longrightarrow>
     fst (search_youtube_videos query max_results w) = []"
  by (auto simp add: search_youtube_videos_def Let_def)

lemma search_with_key:
  "YOUTUBE_API_KEY w = Some k \<Longrightarrow> k \<noteq> [] \<Longrightarrow>
     fst (search_youtube_videos query max_results w) =
       (case try_request (requests_get w (length (calls w)) query max_results) max_results of
          Inl e \<Rightarrow> [] | Inr videos \<Rightarrow> videos)"
  by (simp add: search_youtube_videos_def Let_def split: sum.split)

lemma search_raise:
  "try_request (requests_get w (length (calls w)) query max_results) max_results = Inl e \<Longrightarrow>
     fst (search_youtube_videos query max_results w) = []"
  by (simp add: search_youtube_videos_def Let_def split: option.split)

lemma search_status:
  "requests_get w (length (calls w)) query max_results = Response status body \<Longrightarrow>
     status \<noteq> 200 \<Longrightarrow> fst (search_youtube_videos query max_results w) = []"
  by (simp add: search_youtube_videos_def Let_def try_request_def split: option.split)

lemma items_loop_char:
  "items_loop its acc = Inr vs \<longleftrightarrow> (\<exists>vs'. vs = acc @ vs' \<and> map video_info its = map Inr vs')"
proof (induction its arbitrary: acc)
  case Nil
  show ?case by auto
next
  case (Cons it rest)
  show ?case
  proof (cases "video_info it")
    case (Inl e)
    then show ?thesis by (auto simp add: then_do_def)
  next
    case (Inr v)
    have "items_loop (it # rest) acc = Inr vs \<longleftrightarrow>
        (\<exists>vs'. vs = (acc @ [v]) @ vs' \<and> map video_info rest = map Inr vs')"
      using Inr Cons.IH [of "acc @ [v]"] by (simp add: then_do_def)
    also have "\<dots> \<longleftrightarrow> (\<exists>vs''. vs = acc @ vs'' \<and> map video_info (it # rest) = map Inr vs'')"
    proof
      assume "\<exists>vs'. vs = (acc @ [v]) @ vs' \<and> map video_info rest = map Inr vs'"
      then obtain vs' where "vs = (acc @ [v]) @ vs'" "map video_info rest = map Inr vs'" by blast
      then have "vs = acc @ (v # vs') \<and> map video_info (it # rest) = map Inr (v # vs')"
        using Inr by simp
      then show "\<exists>vs''. vs = acc @ vs'' \<and> map video_info (it # rest) = map Inr vs''" by blast
    next
      assume "\<exists>vs''. vs = acc @ vs'' \<and> map video_info (it # rest) = map Inr vs''"
      then obtain vs'' where a: "vs = acc @ vs''" and b: "map video_info (it # rest) = map Inr vs''"
        by blast
      from b obtain x xs where c: "vs'' = x # xs" by (cases vs'') auto
      with b Inr have "x = v" "map video_info rest = map Inr xs" by auto
      with a c have "vs = (acc @ [v]) @ xs \<and> map video_info rest = map Inr xs" by simp
      then show "\<exists>vs'. vs = (acc @ [v]) @ vs' \<and> map video_info rest = map Inr vs'" by blast
    qed
    finally show ?thesis .
  qed
qed

lemma items_loop_total:
  "\<forall>it \<in> set its. \<exists>v. video_info it = Inr v \<Longrightarrow> \<exists>vs. items_loop its acc = Inr vs"
proof (induction its arbitrary: acc)
  case Nil
  show ?case by simp
next
  case (Cons it rest)
  then obtain v where "video_info it = Inr v" by auto
  moreover from Cons.prems have "\<forall>it \<in> set rest. \<exists>v. video_info it = Inr v" by simp
  ultimately show ?case using Cons.IH [of "acc @ [v]"] by (simp add: then_do_def)
qed

lemma video_info_Inr:
  "video_info it = Inr v \<Longrightarrow>
     \<exists>sn d i vid. it_snippet it = Some sn \<and> sn_description sn = Some d
       \<and> sn_title sn = Some (video_title v)
       \<and> it_id it = Some i \<and> id_videoId i = Some vid
       \<and> video_url v = ''https://www.youtube.com/watch?v='' @ vid
       \<and> video_description v = (if length d \<le> 200 then d else take 200 d @ ''...'')"
  by (auto simp add: video_info_def then_do_def getitem_def py_take_def
      split: option.splits)


text \<open>
  Claim C4. \<open>search_youtube_videos\<close> returns a list on every path (its result has no
  exception): with the credential missing or empty, with a status code other than 200,
  with a transport error, and whenever the body of the \<open>try\<close> statement raises (a body
  that is not JSON or not an object, an item without one of its keys), the list is
  empty.
\<close>

theorem search_never_raises:
  "(YOUTUBE_API_KEY w = None \<or> YOUTUBE_API_KEY w = Some [] \<longrightarrow>
      fst (search_youtube_videos query max_results w) = [])
   \<and> (\<forall>status body.
         requests_get w (length (calls w)) query max_results = Response status body
           \<and> status \<noteq> 200 \<longrightarrow>
         fst (search_youtube_videos query max_results w) = [])
   \<and> (requests_get w (length (calls w)) query max_results = Transport_error \<longrightarrow>
         fst (search_youtube_videos query max_results w) = [])
   \<and> (\<forall>e. try_request (requests_get w (length (calls w)) query max_results) max_results
             = Inl e \<longrightarrow>
         fst (search_youtube_videos query max_results w) = [])"
proof -
  have "requests_get w (length (calls w)) query max_results = Transport_error \<longrightarrow>
      fst (search_youtube_videos query max_results w) = []"
    using search_raise [of w query max_results RequestException]
    by (simp add: try_request_def)
  then show ?thesis
    using search_no_key [of w query max_results] search_status [of w query max_results]
      search_raise [of w query max_results]
    by blast
qed

theorem search_never_raises_witness:
  "fst (search_youtube_videos ''Rust complete tutorial'' 2
         \<lparr>YOUTUBE_API_KEY = None, requests_get = (\<lambda>k q n. Response 200 (Object None)),
          calls = []\<rparr>) = []
   \<and> fst (search_youtube_videos ''Rust complete tutorial'' 2
         \<lparr>YOUTUBE_API_KEY = Some ''key'', requests_get = (\<lambda>k q n. Response 403 Invalid_json),
          calls = []\<rparr>) = []
   \<and> fst (search_youtube_videos ''Rust complete tutorial'' 2
         \<lparr>YOUTUBE_API_KEY = Some ''key'', requests_get = (\<lambda>k q n. Transport_error),
          calls = []\<rparr>) = []
   \<and> fst (search_youtube_videos ''Rust complete tutorial'' 2
         \<lparr>YOUTUBE_API_KEY = Some ''key'',
          requests_get = (\<lambda>k q n. Response 200 (Object (Some [\<lparr>it_snippet = None, it_id = None\<rparr>]))),
          calls = []\<rparr>) = []"
  using
    search_never_raises [of "\<lparr>YOUTUBE_API_KEY = None,
      requests_get = (\<lambda>k q n. Response 200 (Object None)), calls = []\<rparr>"
      "''Rust complete tutorial''" 2]
    search_never_raises [of "\<lparr>YOUTUBE_API_KEY = Some ''key'',
      requests_get = (\<lambda>k q n. Response 403 Invalid_json), calls = []\<rparr>"
      "''Rust complete tutorial''" 2]
    search_never_raises [of "\<lparr>YOUTUBE_API_KEY = Some ''key'',
      requests_get = (\<lambda>k q n. Transport_error), calls = []\<rparr>"
      "''Rust complete tutorial''" 2]
    search_never_raises [of "\<lparr>YOUTUBE_API_KEY = Some ''key'',
      requests_get = (\<lambda>k q n. Response 200 (Object (Some [\<lparr>it_snippet = None, it_id = None\<rparr>]))),
      calls = []\<rparr>"
      "''Rust complete tutorial''" 2]
  by (simp add: try_request_def py_take_def get_default_def video_info_def then_do_def
      getitem_def)

text \<open>
  Claim C10. On provider success (credential set, status 200, a JSON object) and for
  \<open>max_results \<ge> 0\<close>, at most \<open>max_results\<close> records are returned, record \<open>i\<close> is made
  from the provider's item \<open>i\<close> (its title, its video id), and its description is the
  provider's description when that has at most 200 characters, and otherwise its first
  200 characters followed by \<open>...\<close>. When each of the first \<open>max_results\<close> items has all
  its keys, there is a record for each of them.
\<close>

theorem search_success_records:
  assumes key: "YOUTUBE_API_KEY w = Some api_key" "api_key \<noteq> []"
    and reply: "requests_get w (length (calls w)) query max_results
                  = Response 200 (Object provided)"
    and nonneg: "0 \<le> max_results"
  shows "length (fst (search_youtube_videos query max_results w)) \<le> nat max_results
    \<and> length (fst (search_youtube_videos query max_results w))
        \<le> length (get_default provided [])
    \<and> (\<forall>i < length (fst (search_youtube_videos query max_results w)).
          \<exists>sn d i' vid.
            it_snippet (get_default provided [] ! i) = Some sn
            \<and> sn_description sn = Some d
            \<and> sn_title sn
                = Some (video_title (fst (search_youtube_videos query max_results w) ! i))
            \<and> it_id (get_default provided [] ! i) = Some i' \<and> id_videoId i' = Some vid
            \<and> video_url (fst (search_youtube_videos query max_results w) ! i)
                = ''https://www.youtube.com/watch?v='' @ vid
            \<and> video_description (fst (search_youtube_videos query max_results w) ! i)
                = (if length d \<le> 200 then d else take 200 d @ ''...''))
    \<and> ((\<forall>it \<in> set (take (nat max_results) (get_default provided [])).
            \<exists>v. video_info it = Inr v) \<longrightarrow>
         length (fst (search_youtube_videos query max_results w))
           = min (nat max_results) (length (get_default provided [])))"
proof -
  let ?items = "get_default provided []"
  let ?first = "take (nat max_results) ?items"
  let ?result = "fst (search_youtube_videos query max_results w)"
  have res: "?result = (case items_loop ?first [] of Inl e \<Rightarrow> [] | Inr videos \<Rightarrow> videos)"
    using key reply nonneg
    by (simp add: search_with_key try_request_def py_take_def)
  have good: "items_loop ?first [] = Inr vs \<Longrightarrow> ?result = vs \<and> map video_info ?first = map Inr vs"
    for vs
    using res items_loop_char [of ?first "[]" vs] by simp
  have len_first: "length ?first = min (nat max_results) (length ?items)"
    by simp
  show ?thesis
  proof (cases "items_loop ?first []")
    case (Inl e)
    then have empty: "?result = []" using res by simp
    have "\<not> (\<forall>it \<in> set ?first. \<exists>v. video_info it = Inr v)"
      using items_loop_total [of ?first "[]"] Inl by auto
    with empty show ?thesis by auto
  next
    case (Inr vs)
    from good [OF Inr] have r: "?result = vs" and m: "map video_info ?first = map Inr vs"
      by simp_all
    from m have len: "length vs = length ?first"
      using length_map [of video_info ?first] length_map [of Inr vs] by metis
    have each: "\<exists>sn d i' vid.
            it_snippet (?items ! i) = Some sn
            \<and> sn_description sn = Some d
            \<and> sn_title sn = Some (video_title (vs ! i))
            \<and> it_id (?items ! i) = Some i' \<and> id_videoId i' = Some vid
            \<and> video_url (vs ! i) = ''https://www.youtube.com/watch?v='' @ vid
            \<and> video_description (vs ! i)
                = (if length d \<le> 200 then d else take 200 d @ ''...'')"
      if "i < length vs" for i
    proof -
      from that len have i: "i < length ?first" by simp
      have "video_info (?first ! i) = map video_info ?first ! i"
        using i by simp
      also have "\<dots> = Inr (vs ! i)"
        using m that by simp
      finally have "video_info (?first ! i) = Inr (vs ! i)" .
      moreover have "?first ! i = ?items ! i"
        using i by simp
      ultimately have "video_info (?items ! i) = Inr (vs ! i)" by simp
      from video_info_Inr [OF this] show ?thesis .
    qed
    from len len_first have "length vs \<le> nat max_results" "length vs \<le> length ?items"
      by simp_all
    moreover from len len_first have "length vs = min (nat max_results) (length ?items)"
      by simp
    ultimately show ?thesis
      unfolding r using each by blast
  qed
qed


theorem search_success_records_witness:
  "map video_description (fst (search_youtube_videos ''Rust complete tutorial'' 2
         \<lparr>YOUTUBE_API_KEY = Some ''key'',
          requests_get = (\<lambda>k q n. Response 200 (Object (Some
            [\<lparr>it_snippet = Some \<lparr>sn_title = Some ''Rust in 100 Seconds'',
                 sn_description = Some ''A short tour'', sn_channelTitle = Some ''Ch'',
                 sn_publishedAt = Some ''2024-01-01'', sn_thumbnails = Some []\<rparr>,
               it_id = Some \<lparr>id_videoId = Some ''abc''\<rparr>\<rparr>,
             \<lparr>it_snippet = Some \<lparr>sn_title = Some ''Rust Course'',
                 sn_description = Some (replicate 201 (CHR ''a'')), sn_channelTitle = Some ''Ch'',
                 sn_publishedAt = Some ''2024-01-02'', sn_thumbnails = Some []\<rparr>,
               it_id = Some \<lparr>id_videoId = Some ''xyz''\<rparr>\<rparr>,
             \<lparr>it_snippet = None, it_id = None\<rparr>]))),
          calls = []\<rparr>))
     = [''A short tour'', replicate 200 (CHR ''a'') @ ''...'']
   \<and> map video_url (fst (search_youtube_videos ''Rust complete tutorial'' 2
         \<lparr>YOUTUBE_API_KEY = Some ''key'',
          requests_get = (\<lambda>k q n. Response 200 (Object (Some
            [\<lparr>it_snippet = Some \<lparr>sn_title = Some ''Rust in 100 Seconds'',
                 sn_description = Some ''A short tour'', sn_channelTitle = Some ''Ch'',
                 sn_publishedAt = Some ''2024-01-01'', sn_thumbnails = Some []\<rparr>,
               it_id = Some \<lparr>id_videoId = Some ''abc''\<rparr>\<rparr>,
             \<lparr>it_snippet = Some \<lparr>sn_title = Some ''Rust Course'',
                 sn_description = Some (replicate 201 (CHR ''a'')), sn_channelTitle = Some ''Ch'',
                 sn_publishedAt = Some ''2024-01-02'', sn_thumbnails = Some []\<rparr>,
               it_id = Some \<lparr>id_videoId = Some ''xyz''\<rparr>\<rparr>,
             \<lparr>it_snippet = None, it_id = None\<rparr>]))),
          calls = []\<rparr>))
     = [''https://www.youtube.com/watch?v=abc'', ''https://www.youtube.com/watch?v=xyz'']"
  using search_success_records [of
        "\<lparr>YOUTUBE_API_KEY = Some ''key'',
          requests_get = (\<lambda>k q n. Response 200 (Object (Some
            [\<lparr>it_snippet = Some \<lparr>sn_title = Some ''Rust in 100 Seconds'',
                 sn_description = Some ''A short tour'', sn_channelTitle = Some ''Ch'',
                 sn_publishedAt = Some ''2024-01-01'', sn_thumbnails = Some []\<rparr>,
               it_id = Some \<lparr>id_videoId = Some ''abc''\<rparr>\<rparr>,
             \<lparr>it_snippet = Some \<lparr>sn_title = Some ''Rust Course'',
                 sn_description = Some (replicate 201 (CHR ''a'')), sn_channelTitle = Some ''Ch'',
                 sn_publishedAt = Some ''2024-01-02'', sn_thumbnails = Some []\<rparr>,
               it_id = Some \<lparr>id_videoId = Some ''xyz''\<rparr>\<rparr>,
             \<lparr>it_snippet = None, it_id = None\<rparr>]))),
          calls = []\<rparr>"
        "''key''" "''Rust complete tutorial''" 2
        "Some
            [\<lparr>it_snippet = Some \<lparr>sn_title = Some ''Rust in 100 Seconds'',
                 sn_description = Some ''A short tour'', sn_channelTitle = Some ''Ch'',
                 sn_publishedAt = Some ''2024-01-01'', sn_thumbnails = Some []\<rparr>,
               it_id = Some \<lparr>id_videoId = Some ''abc''\<rparr>\<rparr>,
             \<lparr>it_snippet = Some \<lparr>sn_title = Some ''Rust Course'',
                 sn_description = Some (replicate 201 (CHR ''a'')), sn_channelTitle = Some ''Ch'',
                 sn_publishedAt = Some ''2024-01-02'', sn_thumbnails = Some []\<rparr>,
               it_id = Some \<lparr>id_videoId = Some ''xyz''\<rparr>\<rparr>,
             \<lparr>it_snippet = None, it_id = None\<rparr>]"]
  by (simp add: search_youtube_videos_def try_request_def py_take_def get_default_def
      video_info_def then_do_def getitem_def)

section \<open>The query budget of the enhancer\<close>

lemma py_take_length: "0 \<le> n \<Longrightarrow> length (py_take n xs) \<le> nat n"
  by (simp add: py_take_def)

lemma split_words_nonempty:
  "word \<noteq> [] \<or> (\<exists>c \<in> set s. \<not> isspace c) \<Longrightarrow> split_words word s \<noteq> []"
proof (induction s arbitrary: word)
  case Nil
  then show ?case by simp
next
  case (Cons c cs)
  show ?case
  proof (cases "isspace c")
    case True
    show ?thesis
    proof (cases "word = []")
      case True
      with Cons.prems \<open>isspace c\<close> have "\<exists>c \<in> set cs. \<not> isspace c" by auto
      then have "split_words [] cs \<noteq> []" using Cons.IH [of "[]"] by blast
      with True \<open>isspace c\<close> show ?thesis by simp
    next
      case False
      with \<open>isspace c\<close> show ?thesis by simp
    qed
  next
    case False
    have "split_words (word @ [c]) cs \<noteq> []" using Cons.IH [of "word @ [c]"] by simp
    with False show ?thesis by simp
  qed
qed

lemma last_word_total: "\<exists>c \<in> set query. \<not> isspace c \<Longrightarrow> \<exists>lw. last_word query = Inr lw"
proof -
  assume "\<exists>c \<in> set query. \<not> isspace c"
  then have "split query \<noteq> []"
    using split_words_nonempty [of "[]" query] by (simp add: split_def)
  then show ?thesis by (cases "split query") (simp_all add: last_word_def)
qed

lemma not_space_e: "\<not> isspace (CHR ''e'')"
  by (simp add: isspace_def)

lemma topic_queries_words:
  "query \<in> set (topic_queries topic) \<Longrightarrow> \<exists>lw. last_word query = Inr lw"
proof -
  assume "query \<in> set (topic_queries topic)"
  then have "CHR ''e'' \<in> set query" by (auto simp add: topic_queries_def)
  with not_space_e have "\<exists>c \<in> set query. \<not> isspace c" by blast
  then show ?thesis by (rule last_word_total)
qed

lemma topic_videos_loop_total:
  "last_word query = Inr lw \<Longrightarrow>
     topic_videos_loop topic query vs recs =
       Inr (recs @ map (\<lambda>v. \<lparr>rec_title = video_title v, rec_url = video_url v,
                              rec_keywords = [lower topic, lw, ''tutorial'']\<rparr>) vs)"
  by (induction vs arbitrary: recs) (simp_all add: then_do_def)

lemma topic_queries_loop_calls:
  "\<forall>query \<in> set qs. \<exists>lw. last_word query = Inr lw \<Longrightarrow>
     (\<exists>recs'. fst (topic_queries_loop topic qs recs w) = Inr recs')
     \<and> calls (snd (topic_queries_loop topic qs recs w)) = calls w @ map (\<lambda>q. (q, 2)) qs"
proof (induction qs arbitrary: recs w)
  case Nil
  show ?case by simp
next
  case (Cons query rest)
  from Cons.prems obtain lw where lw: "last_word query = Inr lw" by auto
  from Cons.prems have rest: "\<forall>query \<in> set rest. \<exists>lw. last_word query = Inr lw" by simp
  obtain vs w' where s: "search_youtube_videos query 2 w = (vs, w')"
    by (cases "search_youtube_videos query 2 w")
  then have c: "calls w' = calls w @ [(query, 2)]"
    using search_calls [of query 2 w] by simp
  let ?recs = "recs @ map (\<lambda>v. \<lparr>rec_title = video_title v, rec_url = video_url v,
                              rec_keywords = [lower topic, lw, ''tutorial'']\<rparr>) vs"
  have "topic_queries_loop topic (query # rest) recs w = topic_queries_loop topic rest ?recs w'"
    using s topic_videos_loop_total [OF lw] by simp
  with Cons.IH [OF rest, of ?recs w'] c show ?case by simp
qed

lemma videos_loop_eq:
  "videos_loop kws vs recs =
     recs @ map (\<lambda>v. \<lparr>rec_title = video_title v, rec_url = video_url v, rec_keywords = kws\<rparr>) vs"
  by (induction vs arbitrary: recs) simp_all

lemma queries_loop_calls:
  "calls (snd (snd (queries_loop qs kws key (recs, seen, w)))) = calls w @ map (\<lambda>q. (q, 1)) qs"
proof (induction qs arbitrary: recs seen w)
  case Nil
  show ?case by simp
next
  case (Cons query rest)
  obtain vs w' where s: "search_youtube_videos query 1 w = (vs, w')"
    by (cases "search_youtube_videos query 1 w")
  then have c: "calls w' = calls w @ [(query, 1)]"
    using search_calls [of query 1 w] by simp
  show ?case using s c Cons.IH [of "videos_loop kws vs recs" "insert key seen" w'] by simp
qed

lemma subtopics_loop_calls:
  "\<exists>new. calls (snd (snd (subtopics_loop topic subs (recs, seen, w)))) = calls w @ new
      \<and> length new \<le> length subs"
proof (induction subs arbitrary: recs seen w)
  case Nil
  show ?case by simp
next
  case (Cons subtopic rest)
  let ?st = "if subtopic \<noteq> [] \<and> subtopic \<notin> seen
        then queries_loop (py_take 1 (subtopic_queries topic subtopic))
               [lower topic, lower subtopic, ''concept''] subtopic (recs, seen, w)
        else (recs, seen, w)"
  obtain recs1 seen1 w1 where st: "?st = (recs1, seen1, w1)" by (cases ?st)
  have "\<exists>new1. calls w1 = calls w @ new1 \<and> length new1 \<le> 1"
  proof (cases "subtopic \<noteq> [] \<and> subtopic \<notin> seen")
    case True
    with st have "calls w1 = calls w @ map (\<lambda>q. (q, 1)) (py_take 1 (subtopic_queries topic subtopic))"
      using queries_loop_calls [of "py_take 1 (subtopic_queries topic subtopic)"
          "[lower topic, lower subtopic, ''concept'']" subtopic recs seen w]
      by simp
    moreover have "length (map (\<lambda>q. (q, 1::int)) (py_take 1 (subtopic_queries topic subtopic))) \<le> 1"
      using py_take_length [of 1 "subtopic_queries topic subtopic"] by simp
    ultimately show ?thesis by blast
  next
    case False
    with st have "calls w1 = calls w @ []" by auto
    then show ?thesis by (metis list.size(3) zero_le)
  qed
  then obtain new1 where n1: "calls w1 = calls w @ new1" "length new1 \<le> 1" by blast
  from Cons.IH [of recs1 seen1 w1] obtain new2 where
    n2: "calls (snd (snd (subtopics_loop topic rest (recs1, seen1, w1)))) = calls w1 @ new2"
      "length new2 \<le> length rest" by blast
  have "subtopics_loop topic (subtopic # rest) (recs, seen, w)
      = subtopics_loop topic rest (recs1, seen1, w1)"
    using st by simp
  with n1 n2 have "calls (snd (snd (subtopics_loop topic (subtopic # rest) (recs, seen, w))))
      = calls w @ (new1 @ new2) \<and> length (new1 @ new2) \<le> length (subtopic # rest)"
    by simp
  then show ?case by blast
qed


lemma title_query_calls:
  "\<exists>new. calls (snd (snd
       (if module_title \<noteq> [] \<and> module_title \<notin> seen
        then queries_loop (py_take 1 (module_queries topic module_title)) kws module_title
               (recs, seen, w)
        else (recs, seen, w)))) = calls w @ new \<and> length new \<le> 1"
proof (cases "module_title \<noteq> [] \<and> module_title \<notin> seen")
  case True
  have "length (map (\<lambda>q. (q, 1::int)) (py_take 1 (module_queries topic module_title))) \<le> 1"
    using py_take_length [of 1 "module_queries topic module_title"] by simp
  with True show ?thesis
    using queries_loop_calls [of "py_take 1 (module_queries topic module_title)" kws
        module_title recs seen w]
    by auto
next
  case False
  then show ?thesis by auto
qed

lemma modules_loop_calls:
  "\<exists>new. calls (snd (snd (modules_loop topic ms (recs, seen, w)))) = calls w @ new
      \<and> length new
          \<le> sum_list (map (\<lambda>m. 1 + min 2 (length (get_default (mod_subtopics m) []))) ms)"
proof (induction ms arbitrary: recs seen w)
  case Nil
  show ?case by simp
next
  case (Cons m rest)
  let ?title = "get_default (mod_title m) []"
  let ?subs = "get_default (mod_subtopics m) []"
  let ?st1 = "if ?title \<noteq> [] \<and> ?title \<notin> seen
        then queries_loop (py_take 1 (module_queries topic ?title))
               [lower topic, lower ?title, ''module''] ?title (recs, seen, w)
        else (recs, seen, w)"
  obtain recs1 seen1 w1 where st1: "?st1 = (recs1, seen1, w1)" by (cases ?st1)
  obtain new1 where n1: "calls w1 = calls w @ new1" "length new1 \<le> 1"
    using title_query_calls [of ?title seen topic "[lower topic, lower ?title, ''module'']" recs w]
      st1 by auto
  let ?st2 = "subtopics_loop topic (py_take 2 ?subs) (recs1, seen1, w1)"
  obtain recs2 seen2 w2 where st2: "?st2 = (recs2, seen2, w2)" by (cases ?st2)
  obtain new2 where n2: "calls w2 = calls w1 @ new2" "length new2 \<le> length (py_take 2 ?subs)"
    using subtopics_loop_calls [of topic "py_take 2 ?subs" recs1 seen1 w1] st2 by auto
  have l2: "length (py_take 2 ?subs) = min 2 (length ?subs)"
    by (simp add: py_take_def)
  obtain new3 where n3:
    "calls (snd (snd (modules_loop topic rest (recs2, seen2, w2)))) = calls w2 @ new3"
    "length new3
       \<le> sum_list (map (\<lambda>m. 1 + min 2 (length (get_default (mod_subtopics m) []))) rest)"
    using Cons.IH [of recs2 seen2 w2] by blast
  have "modules_loop topic (m # rest) (recs, seen, w) = modules_loop topic rest (recs2, seen2, w2)"
    using st1 st2 by (simp add: Let_def)
  then have "calls (snd (snd (modules_loop topic (m # rest) (recs, seen, w))))
      = calls w @ (new1 @ new2 @ new3)"
    using n1 n2 n3 by simp
  moreover have "length (new1 @ new2 @ new3)
      \<le> sum_list (map (\<lambda>m. 1 + min 2 (length (get_default (mod_subtopics m) []))) (m # rest))"
  proof -
    have "length new2 \<le> min 2 (length ?subs)" using n2(2) unfolding l2 .
    then have "length new2 \<le> 2" "length new2 \<le> length ?subs" by simp_all
    with n1(2) n3(2) show ?thesis by (simp; linarith)
  qed
  ultimately show ?case by blast
qed

lemma module_budget:
  "sum_list (map (\<lambda>m. 1 + min 2 (length (get_default (mod_subtopics m) []))) ms) \<le> 3 * length ms"
  by (induction ms) simp_all

lemma fill_calls:
  "\<exists>new. calls (snd (fill_recommendations topic recs w)) = calls w @ new \<and> length new \<le> 1"
proof (cases "length recs < 5")
  case True
  obtain vs w' where s:
    "search_youtube_videos (topic @ '' advanced tutorial'') (5 - int (length recs)) w = (vs, w')"
    by (cases "search_youtube_videos (topic @ '' advanced tutorial'') (5 - int (length recs)) w")
  then have "calls w' = calls w @ [(topic @ '' advanced tutorial'', 5 - int (length recs))]"
    using search_calls [of "topic @ '' advanced tutorial''" "5 - int (length recs)" w] by simp
  with True s show ?thesis by (simp add: fill_recommendations_def)
next
  case False
  then show ?thesis by (simp add: fill_recommendations_def)
qed

lemma topic_phase:
  "(\<exists>recs'. fst (topic_queries_loop topic (py_take 2 (topic_queries topic)) recs w) = Inr recs')
   \<and> calls (snd (topic_queries_loop topic (py_take 2 (topic_queries topic)) recs w))
       = calls w @ [(topic @ '' complete tutorial'', 2), (topic @ '' course for beginners'', 2)]"
proof -
  have t: "py_take 2 (topic_queries topic)
      = [topic @ '' complete tutorial'', topic @ '' course for beginners'']"
    by (simp add: py_take_def topic_queries_def)
  have "\<forall>query \<in> set (py_take 2 (topic_queries topic)). \<exists>lw. last_word query = Inr lw"
    using topic_queries_words [of _ topic] unfolding t by (simp add: topic_queries_def)
  from topic_queries_loop_calls [OF this, of topic recs w] show ?thesis
    unfolding t by simp
qed

lemma collect_calls:
  "\<exists>recs mq fq.
     fst (collect_recommendations topic lp w) = Inr recs
     \<and> calls (snd (collect_recommendations topic lp w))
         = calls w @ [(topic @ '' complete tutorial'', 2), (topic @ '' course for beginners'', 2)]
             @ mq @ fq
     \<and> length mq \<le> sum_list (map (\<lambda>m. 1 + min 2 (length (get_default (mod_subtopics m) [])))
                        (take 3 (get_default (modules lp) [])))
     \<and> length fq \<le> 1"
proof -
  let ?t = "topic_queries_loop topic (py_take 2 (topic_queries topic)) [] w"
  obtain r1 w1 where t: "?t = (r1, w1)" by (cases ?t)
  with topic_phase [of topic "[]" w] obtain recs1 where
    r1: "r1 = Inr recs1"
    and c1: "calls w1 = calls w @ [(topic @ '' complete tutorial'', 2),
                                   (topic @ '' course for beginners'', 2)]"
    by auto
  let ?ms = "py_take 3 (get_default (modules lp) [])"
  have ms: "?ms = take 3 (get_default (modules lp) [])" by (simp add: py_take_def)
  let ?m = "modules_loop topic ?ms (recs1, {}, w1)"
  obtain recs2 seen2 w2 where m: "?m = (recs2, seen2, w2)" by (cases ?m)
  obtain mq where c2: "calls w2 = calls w1 @ mq"
    "length mq \<le> sum_list (map (\<lambda>m. 1 + min 2 (length (get_default (mod_subtopics m) []))) ?ms)"
    using modules_loop_calls [of topic ?ms recs1 "{}" w1] m by auto
  let ?f = "fill_recommendations topic recs2 w2"
  obtain recs3 w3 where f: "?f = (recs3, w3)" by (cases ?f)
  obtain fq where c3: "calls w3 = calls w2 @ fq" "length fq \<le> 1"
    using fill_calls [of topic recs2 w2] f by auto
  have "collect_recommendations topic lp w = (Inr recs3, w3)"
    using t r1 m f by (simp add: collect_recommendations_def)
  with c1 c2 c3 ms show ?thesis by auto
qed

lemma enhance_world:
  "snd (enhance_learning_path_with_youtube topic lp w) = snd (collect_recommendations topic lp w)"
  by (cases "collect_recommendations topic lp w")
     (auto simp add: enhance_learning_path_with_youtube_def Let_def split: sum.split)

text \<open>
  Claim C3. One call of \<open>enhance_learning_path_with_youtube\<close> adds at most 12 calls of
  \<open>search_youtube_videos\<close> to the log: the 2 topic queries, then at most one query for
  each of the first 3 modules and for each of the first 2 subtopics of these modules (at
  most 9), then at most 1 fill query.
\<close>

theorem enhance_search_budget:
  "\<exists>tq mq fq.
     calls (snd (enhance_learning_path_with_youtube topic learning_path w))
       = calls w @ tq @ mq @ fq
     \<and> tq = map (\<lambda>q. (q, 2)) (take 2 (topic_queries topic))
     \<and> length mq
         \<le> sum_list (map (\<lambda>m. 1 + min 2 (length (get_default (mod_subtopics m) [])))
                      (take 3 (get_default (modules learning_path) [])))
     \<and> length mq \<le> 9
     \<and> length fq \<le> 1
     \<and> length (tq @ mq @ fq) \<le> 12"
proof -
  obtain mq fq where
    c: "calls (snd (collect_recommendations topic learning_path w))
         = calls w @ [(topic @ '' complete tutorial'', 2), (topic @ '' course for beginners'', 2)]
             @ mq @ fq"
    and m: "length mq \<le> sum_list (map (\<lambda>m. 1 + min 2 (length (get_default (mod_subtopics m) [])))
                        (take 3 (get_default (modules learning_path) [])))"
    and f: "length fq \<le> 1"
    using collect_calls [of topic learning_path w] by blast
  let ?tq = "map (\<lambda>q. (q, 2::int)) (take 2 (topic_queries topic))"
  have tq: "?tq = [(topic @ '' complete tutorial'', 2), (topic @ '' course for beginners'', 2)]"
    by (simp add: topic_queries_def)
  have "length mq \<le> 3 * length (take 3 (get_default (modules learning_path) []))"
    using m module_budget [of "take 3 (get_default (modules learning_path) [])"] by linarith
  then have m9: "length mq \<le> 9" by simp
  have "calls (snd (enhance_learning_path_with_youtube topic learning_path w))
       = calls w @ ?tq @ mq @ fq"
    using c tq by (simp add: enhance_world)
  moreover have "length (?tq @ mq @ fq) \<le> 12"
    using m9 f by simp
  ultimately show ?thesis using m m9 f by blast
qed

theorem enhance_search_budget_witness:
  "length (calls (snd (enhance_learning_path_with_youtube ''Rust''
      \<lparr>modules = Some
         [\<lparr>mod_title = Some ''Basics'', mod_subtopics = Some [''Syntax'', ''Types'', ''Tools'']\<rparr>,
          \<lparr>mod_title = Some ''Ownership'', mod_subtopics = Some [''Moves'', ''Borrows'', ''Lifetimes'']\<rparr>,
          \<lparr>mod_title = Some ''Traits'', mod_subtopics = Some [''Generics'', ''Bounds'', ''Objects'']\<rparr>,
          \<lparr>mod_title = Some ''Async'', mod_subtopics = Some [''Futures'', ''Tasks'', ''Streams'']\<rparr>],
       youtube_recommendations = Some [], quiz_questions = Some [], topic_of = ''Rust''\<rparr>
      \<lparr>YOUTUBE_API_KEY = None, requests_get = (\<lambda>k q n. Transport_error), calls = []\<rparr>)))
   = 12"
  using enhance_search_budget [of "''Rust''"
      "\<lparr>modules = Some
         [\<lparr>mod_title = Some ''Basics'', mod_subtopics = Some [''Syntax'', ''Types'', ''Tools'']\<rparr>,
          \<lparr>mod_title = Some ''Ownership'', mod_subtopics = Some [''Moves'', ''Borrows'', ''Lifetimes'']\<rparr>,
          \<lparr>mod_title = Some ''Traits'', mod_subtopics = Some [''Generics'', ''Bounds'', ''Objects'']\<rparr>,
          \<lparr>mod_title = Some ''Async'', mod_subtopics = Some [''Futures'', ''Tasks'', ''Streams'']\<rparr>],
       youtube_recommendations = Some [], quiz_questions = Some [], topic_of = ''Rust''\<rparr>"
      "\<lparr>YOUTUBE_API_KEY = None, requests_get = (\<lambda>k q n. Transport_error), calls = []\<rparr>"]
  by (simp add: enhance_learning_path_with_youtube_def collect_recommendations_def
      topic_queries_def py_take_def search_youtube_videos_def get_default_def
      module_queries_def subtopic_queries_def fill_recommendations_def
      final_recommendations_def unique_recommendations_def Let_def)

section \<open>The enhancer when the search finds nothing\<close>

lemma search_silent:
  assumes "\<forall>q n cs. fst (search_youtube_videos q n (w\<lparr>calls := cs\<rparr>)) = []"
  shows "search_youtube_videos query max_results (w\<lparr>calls := cs\<rparr>)
           = ([], w\<lparr>calls := cs @ [(query, max_results)]\<rparr>)"
proof (rule prod_eqI)
  show "fst (search_youtube_videos query max_results (w\<lparr>calls := cs\<rparr>))
      = fst ([], w\<lparr>calls := cs @ [(query, max_results)]\<rparr>)"
    using assms by simp
  show "snd (search_youtube_videos query max_results (w\<lparr>calls := cs\<rparr>))
      = snd ([], w\<lparr>calls := cs @ [(query, max_results)]\<rparr>)"
    by (simp add: search_world)
qed

lemma topic_queries_loop_silent:
  assumes "\<forall>q n cs. fst (search_youtube_videos q n (w\<lparr>calls := cs\<rparr>)) = []"
  shows "\<exists>cs'. topic_queries_loop topic qs recs (w\<lparr>calls := cs\<rparr>)
           = (Inr recs, w\<lparr>calls := cs'\<rparr>)"
proof (induction qs arbitrary: cs)
  case Nil
  show ?case by auto
next
  case (Cons query rest)
  show ?case
    using search_silent [OF assms, of query 2 cs] Cons.IH [of "cs @ [(query, 2)]"] by simp
qed

lemma queries_loop_silent:
  assumes "\<forall>q n cs. fst (search_youtube_videos q n (w\<lparr>calls := cs\<rparr>)) = []"
  shows "\<exists>seen' cs'. queries_loop qs kws key (recs, seen, w\<lparr>calls := cs\<rparr>)
           = (recs, seen', w\<lparr>calls := cs'\<rparr>)"
proof (induction qs arbitrary: seen cs)
  case Nil
  show ?case by auto
next
  case (Cons query rest)
  show ?case
    using search_silent [OF assms, of query 1 cs]
      Cons.IH [of "insert key seen" "cs @ [(query, 1)]"] by simp
qed

lemma subtopics_loop_silent:
  assumes "\<forall>q n cs. fst (search_youtube_videos q n (w\<lparr>calls := cs\<rparr>)) = []"
  shows "\<exists>seen' cs'. subtopics_loop topic subs (recs, seen, w\<lparr>calls := cs\<rparr>)
           = (recs, seen', w\<lparr>calls := cs'\<rparr>)"
proof (induction subs arbitrary: seen cs)
  case Nil
  show ?case by auto
next
  case (Cons subtopic rest)
  show ?case
  proof (cases "subtopic \<noteq> [] \<and> subtopic \<notin> seen")
    case True
    obtain seen1 cs1 where
      "queries_loop (py_take 1 (subtopic_queries topic subtopic))
         [lower topic, lower subtopic, ''concept''] subtopic (recs, seen, w\<lparr>calls := cs\<rparr>)
       = (recs, seen1, w\<lparr>calls := cs1\<rparr>)"
      using queries_loop_silent [OF assms] by blast
    with True show ?thesis using Cons.IH [of seen1 cs1] by simp
  next
    case False
    then show ?thesis using Cons.IH [of seen cs] by auto
  qed
qed

lemma modules_loop_silent:
  assumes "\<forall>q n cs. fst (search_youtube_videos q n (w\<lparr>calls := cs\<rparr>)) = []"
  shows "\<exists>seen' cs'. modules_loop topic ms (recs, seen, w\<lparr>calls := cs\<rparr>)
           = (recs, seen', w\<lparr>calls := cs'\<rparr>)"
proof (induction ms arbitrary: seen cs)
  case Nil
  show ?case by auto
next
  case (Cons m rest)
  let ?title = "get_default (mod_title m) []"
  let ?st1 = "if ?title \<noteq> [] \<and> ?title \<notin> seen
        then queries_loop (py_take 1 (module_queries topic ?title))
               [lower topic, lower ?title, ''module''] ?title (recs, seen, w\<lparr>calls := cs\<rparr>)
        else (recs, seen, w\<lparr>calls := cs\<rparr>)"
  have "\<exists>seen1 cs1. ?st1 = (recs, seen1, w\<lparr>calls := cs1\<rparr>)"
    using queries_loop_silent [OF assms] by (cases "?title \<noteq> [] \<and> ?title \<notin> seen") auto
  then obtain seen1 cs1 where st1: "?st1 = (recs, seen1, w\<lparr>calls := cs1\<rparr>)" by blast
  obtain seen2 cs2 where st2:
    "subtopics_loop topic (py_take 2 (get_default (mod_subtopics m) []))
       (recs, seen1, w\<lparr>calls := cs1\<rparr>) = (recs, seen2, w\<lparr>calls := cs2\<rparr>)"
    using subtopics_loop_silent [OF assms] by blast
  have "modules_loop topic (m # rest) (recs, seen, w\<lparr>calls := cs\<rparr>)
      = modules_loop topic rest (recs, seen2, w\<lparr>calls := cs2\<rparr>)"
    using st1 st2 by (simp add: Let_def)
  then show ?case using Cons.IH [of seen2 cs2] by simp
qed

lemma fill_silent:
  assumes "\<forall>q n cs. fst (search_youtube_videos q n (w\<lparr>calls := cs\<rparr>)) = []"
  shows "\<exists>cs'. fill_recommendations topic recs (w\<lparr>calls := cs\<rparr>) = (recs, w\<lparr>calls := cs'\<rparr>)"
proof (cases "length recs < 5")
  case True
  then show ?thesis
    using search_silent [OF assms, of "topic @ '' advanced tutorial''" "5 - int (length recs)" cs]
    by (auto simp add: fill_recommendations_def)
next
  case False
  then show ?thesis by (auto simp add: fill_recommendations_def)
qed

lemma collect_silent:
  assumes "\<forall>q n cs. fst (search_youtube_videos q n (w\<lparr>calls := cs\<rparr>)) = []"
  shows "fst (collect_recommendations topic lp w) = Inr []"
proof -
  have w: "w = w\<lparr>calls := calls w\<rparr>" by simp
  obtain cs1 where t: "topic_queries_loop topic (py_take 2 (topic_queries topic)) [] w
      = (Inr [], w\<lparr>calls := cs1\<rparr>)"
    using topic_queries_loop_silent [OF assms, of topic "py_take 2 (topic_queries topic)" "[]" "calls w"]
    by auto
  obtain seen2 cs2 where m:
    "modules_loop topic (py_take 3 (get_default (modules lp) [])) ([], {}, w\<lparr>calls := cs1\<rparr>)
       = ([], seen2, w\<lparr>calls := cs2\<rparr>)"
    using modules_loop_silent [OF assms] by blast
  obtain cs3 where f: "fill_recommendations topic [] (w\<lparr>calls := cs2\<rparr>) = ([], w\<lparr>calls := cs3\<rparr>)"
    using fill_silent [OF assms] by blast
  show ?thesis using t m f by (simp add: collect_recommendations_def)
qed

text \<open>
  Claim C5. If every search call returns the empty list (whatever the query, the bound
  and the calls made before), \<open>enhance_learning_path_with_youtube\<close> returns the learning
  path unchanged, with the recommendations the generator supplied.
\<close>

theorem enhance_keeps_recommendations_when_search_is_empty:
  assumes "\<forall>q n cs. fst (search_youtube_videos q n (w\<lparr>calls := cs\<rparr>)) = []"
  shows "fst (enhance_learning_path_with_youtube topic learning_path w) = Inr learning_path"
proof -
  obtain w' where "collect_recommendations topic learning_path w = (Inr [], w')"
    using collect_silent [OF assms, of topic learning_path]
    by (cases "collect_recommendations topic learning_path w") simp
  then show ?thesis
    by (simp add: enhance_learning_path_with_youtube_def final_recommendations_def
        unique_recommendations_def py_take_def)
qed

theorem enhance_keeps_recommendations_when_search_is_empty_witness:
  "fst (enhance_learning_path_with_youtube ''Rust''
      \<lparr>modules = Some
         [\<lparr>mod_title = Some ''Ownership'', mod_subtopics = Some [''Moves'', ''Borrows'']\<rparr>],
       youtube_recommendations = Some
         [\<lparr>rec_title = ''Learn Rust'', rec_url = ''https://youtube.com'',
           rec_keywords = [''rust'', ''tutorial'']\<rparr>],
       quiz_questions = Some [], topic_of = ''Rust''\<rparr>
      \<lparr>YOUTUBE_API_KEY = Some ''key'',
       requests_get = (\<lambda>k q n. Response 200 (Object (Some []))), calls = []\<rparr>)
   = Inr \<lparr>modules = Some
         [\<lparr>mod_title = Some ''Ownership'', mod_subtopics = Some [''Moves'', ''Borrows'']\<rparr>],
       youtube_recommendations = Some
         [\<lparr>rec_title = ''Learn Rust'', rec_url = ''https://youtube.com'',
           rec_keywords = [''rust'', ''tutorial'']\<rparr>],
       quiz_questions = Some [], topic_of = ''Rust''\<rparr>"
proof -
  have "\<forall>q n cs. fst (search_youtube_videos q n
      (\<lparr>YOUTUBE_API_KEY = Some ''key'',
        requests_get = (\<lambda>k q n. Response 200 (Object (Some []))), calls = []\<rparr>\<lparr>calls := cs\<rparr>)) = []"
    by (simp add: search_youtube_videos_def try_request_def get_default_def py_take_def)
  from enhance_keeps_recommendations_when_search_is_empty [OF this] show ?thesis .
qed

section \<open>The content generator\<close>

lemma timeout_error_same: "timeout_default topic = error_default topic"
  unfolding timeout_default_def error_default_def
    timeout_modules_def error_modules_def
    timeout_youtube_recommendations_def error_youtube_recommendations_def
    timeout_quiz_questions_def error_quiz_questions_def
  by (rule refl)

lemma generate_failure:
  "generate_learning_path_content json_loads topic Timed_out = timeout_default topic"
  "generate_learning_path_content json_loads topic Raised = error_default topic"
  "generate_learning_path_content json_loads topic Config_missing = error_default topic"
  by (simp_all add: generate_learning_path_content_def try_generate_def)

lemma generate_replied:
  "generate_learning_path_content json_loads topic (Replied text) =
     (case parse_response json_loads topic text of
        Inl e \<Rightarrow> error_default topic
      | Inr c \<Rightarrow> ensure_required_items topic c)"
  by (simp add: generate_learning_path_content_def try_generate_def then_do_def
      parse_response_def split: option.split sum.split)

lemma ensure_modules:
  "modules (ensure_required_items topic c) =
     (if too_few (modules c) 2 then Some (ensured_modules topic) else modules c)"
  by (simp add: ensure_required_items_def Let_def)

lemma ensure_recommendations:
  "youtube_recommendations (ensure_required_items topic c) =
     (if too_few (youtube_recommendations c) 3
      then Some (ensured_youtube_recommendations topic) else youtube_recommendations c)"
  by (simp add: ensure_required_items_def Let_def)

lemma ensure_quiz:
  "quiz_questions (ensure_required_items topic c) =
     (if too_few (quiz_questions c) 5
      then Some (ensured_quiz_questions topic) else quiz_questions c)"
  by (simp add: ensure_required_items_def Let_def)



lemma quiz_tail_same: "tl (timeout_quiz_questions topic) = tl (ensured_quiz_questions topic)"
  by (simp add: timeout_quiz_questions_def ensured_quiz_questions_def)

lemma third_module_same: "drop 2 (timeout_modules topic) = drop 2 (ensured_modules topic)"
  by (simp add: timeout_modules_def ensured_modules_def)


text \<open>
  Claim C2, as amended. On a timeout and on any other exception (a missing credential
  included) \<open>generate_learning_path_content\<close> returns one and the same fallback content.
  It shares with the defaults of the repair path (lines 171--269) the third module and
  the quiz entries 2 to 10; the first two modules, the five recommendations and the
  first quiz question differ.
\<close>

theorem failure_fallbacks_coincide:
  "generate_learning_path_content json_loads topic Timed_out
     = generate_learning_path_content json_loads topic Raised
   \<and> generate_learning_path_content json_loads topic Config_missing
     = generate_learning_path_content json_loads topic Raised
   \<and> map_option (drop 2) (modules (generate_learning_path_content json_loads topic Timed_out))
     = Some (drop 2 (ensured_modules topic))
   \<and> map_option tl (quiz_questions (generate_learning_path_content json_loads topic Timed_out))
     = Some (tl (ensured_quiz_questions topic))"
  by (simp add: generate_failure timeout_error_same [symmetric] timeout_default_def
      quiz_tail_same third_module_same)

theorem failure_fallbacks_coincide_witness:
  "generate_learning_path_content (\<lambda>s. None) ''Rust'' Timed_out
     = generate_learning_path_content (\<lambda>s. None) ''Rust'' Raised
   \<and> generate_learning_path_content (\<lambda>s. None) ''Rust'' Config_missing
     = generate_learning_path_content (\<lambda>s. None) ''Rust'' Raised
   \<and> map_option (drop 2)
       (modules (generate_learning_path_content (\<lambda>s. None) ''Rust'' Timed_out))
     = Some (drop 2 (ensured_modules ''Rust''))
   \<and> map_option tl
       (quiz_questions (generate_learning_path_content (\<lambda>s. None) ''Rust'' Timed_out))
     = Some (tl (ensured_quiz_questions ''Rust''))"
  by (rule failure_fallbacks_coincide)

text \<open>
  Counterexample to claim C2 as stated: for the topic \<open>Rust\<close>, the content returned on a timeout
  and the content the repair path builds for the reply \<open>{}\<close> (every field missing, so
  every field substituted) differ in the modules, in the recommendations and in the quiz
  questions.
\<close>

theorem failure_fallback_differs_from_repair:
  "modules (generate_learning_path_content (\<lambda>s. if s = ''{}'' then Some \<lparr>modules = None, youtube_recommendations = None, quiz_questions = None\<rparr> else None) ''Rust'' Timed_out)
     \<noteq> modules (generate_learning_path_content (\<lambda>s. if s = ''{}'' then Some \<lparr>modules = None, youtube_recommendations = None, quiz_questions = None\<rparr> else None) ''Rust'' (Replied ''{}''))
   \<and> youtube_recommendations (generate_learning_path_content (\<lambda>s. if s = ''{}'' then Some \<lparr>modules = None, youtube_recommendations = None, quiz_questions = None\<rparr> else None) ''Rust'' Timed_out)
     \<noteq> youtube_recommendations (generate_learning_path_content (\<lambda>s. if s = ''{}'' then Some \<lparr>modules = None, youtube_recommendations = None, quiz_questions = None\<rparr> else None) ''Rust'' (Replied ''{}''))
   \<and> quiz_questions (generate_learning_path_content (\<lambda>s. if s = ''{}'' then Some \<lparr>modules = None, youtube_recommendations = None, quiz_questions = None\<rparr> else None) ''Rust'' Timed_out)
     \<noteq> quiz_questions (generate_learning_path_content (\<lambda>s. if s = ''{}'' then Some \<lparr>modules = None, youtube_recommendations = None, quiz_questions = None\<rparr> else None) ''Rust'' (Replied ''{}''))"
  by (simp add: generate_failure generate_replied parse_response_def
      ensure_modules ensure_recommendations ensure_quiz too_few_def timeout_default_def
      timeout_modules_def ensured_modules_def
      timeout_youtube_recommendations_def ensured_youtube_recommendations_def
      timeout_quiz_questions_def ensured_quiz_questions_def)






section \<open>The path assembler\<close>






end
